theory Spec2Isabelle
  imports Main
begin

section \<open>Python values used by the handlers\<close>

text \<open>
  The handlers of \<^verbatim>\<open>backend/app.py\<close> are modelled as functions that take the process
  environment and the state of the storage bucket and return the handler's result together
  with the bucket state after the call. An exception is a value \<open>Inl e\<close>; the bucket is
  then left as it was.
\<close>

datatype error = IndexError | ConfigurationError

text \<open>\<^verbatim>\<open>s.endswith(suffix)\<close> and \<^verbatim>\<open>s.startswith(pre)\<close>.\<close>

definition endswith :: "string \<Rightarrow> string \<Rightarrow> bool" where
  "endswith s suffix \<longleftrightarrow>
     length suffix \<le> length s \<and> drop (length s - length suffix) s = suffix"

definition startswith :: "string \<Rightarrow> string \<Rightarrow> bool" where
  "startswith s pre \<longleftrightarrow> take (length pre) s = pre"

text \<open>
  \<^verbatim>\<open>s.split(sep)\<close> for a separator of one character (the source only splits on
  \<^verbatim>\<open>"/"\<close>): every occurrence of the separator ends a part, so the result has one part
  more than there are separators and is never empty.
\<close>

fun py_split :: "string \<Rightarrow> char \<Rightarrow> string list" where
  "py_split [] sep = [[]]"
| "py_split (c # cs) sep =
     (if c = sep then [] # py_split cs sep
      else (c # hd (py_split cs sep)) # tl (py_split cs sep))"

text \<open>
  \<^verbatim>\<open>xs[i]\<close>: an index below zero counts from the end, and an index outside the list
  raises \<^verbatim>\<open>IndexError\<close>.
\<close>

definition subscript :: "'a list \<Rightarrow> int \<Rightarrow> error + 'a" where
  "subscript xs i =
     (if 0 \<le> i \<and> i < int (length xs) then Inr (xs ! nat i)
      else if i < 0 \<and> - int (length xs) \<le> i then Inr (xs ! nat (int (length xs) + i))
      else Inl IndexError)"

text \<open>\<^verbatim>\<open>d.get(k, [])\<close> on a response dictionary whose key \<open>k\<close> may be absent.\<close>

definition get_or_empty :: "'a list option \<Rightarrow> 'a list" where
  "get_or_empty v = (case v of None \<Rightarrow> [] | Some xs \<Rightarrow> xs)"

section \<open>Configuration\<close>

text \<open>
  \<^verbatim>\<open>S3_BUCKET = os.getenv("S3_BUCKET")\<close>: the variable may be unset, and the value is then
  \<^verbatim>\<open>None\<close>.
\<close>

type_synonym environ = "string \<rightharpoonup> string"

definition S3_BUCKET :: "environ \<Rightarrow> string option" where
  "S3_BUCKET env = env ''S3_BUCKET''"

section \<open>The storage service\<close>

text \<open>
  Modelled from the spec: the storage client (\<^verbatim>\<open>boto3.client("s3")\<close>) and the bucket
  behind it are an external service, absent from the sources. The bucket is a flat
  key-value namespace: a sequence of objects with pairwise different keys, in the order
  in which the service enumerates them. \<open>page_size\<close> is the number of entries of one
  listing page. The type \<open>'t\<close> is the service's timestamp.
\<close>

record 't s3_object =
  Key :: string
  Size :: nat
  LastModified :: 't

record 't s3_bucket =
  objects :: "'t s3_object list"
  page_size :: nat

record common_prefix =
  Prefix :: string

record 't list_objects_v2_output =
  CommonPrefixes :: "common_prefix list option"
  Contents :: "'t s3_object list option"

datatype 't listing_item = Folder common_prefix | Object "'t s3_object"

text \<open>
  Modelled from the spec: in a delimiter-based listing a key that has the delimiter after
  the requested prefix is grouped under its common prefix, the key up to and including
  that next delimiter; any other key under the prefix is listed as an object.
\<close>

definition roll_up :: "string \<Rightarrow> char \<Rightarrow> 't s3_object \<Rightarrow> 't listing_item" where
  "roll_up pre delimiter obj =
     (let rest = drop (length pre) (Key obj) in
      if delimiter \<in> set rest
      then Folder \<lparr>Prefix = pre @ takeWhile (\<lambda>c. c \<noteq> delimiter) rest @ [delimiter]\<rparr>
      else Object obj)"

fun folders_of :: "'t listing_item list \<Rightarrow> common_prefix list" where
  "folders_of [] = []"
| "folders_of (Folder p # items) = p # folders_of items"
| "folders_of (Object obj # items) = folders_of items"

fun objects_of :: "'t listing_item list \<Rightarrow> 't s3_object list" where
  "objects_of [] = []"
| "objects_of (Folder p # items) = objects_of items"
| "objects_of (Object obj # items) = obj # objects_of items"

definition absent_if_empty :: "'a list \<Rightarrow> 'a list option" where
  "absent_if_empty xs = (if xs = [] then None else Some xs)"

text \<open>
  Modelled from the spec: \<^verbatim>\<open>list_objects_v2(Bucket, Prefix, Delimiter)\<close> returns one page
  of the entries under the prefix, each common prefix once; a prefix with no match gives
  zero results, not an error. A response key with no entry is absent. A missing bucket
  name is a \<open>ConfigurationError\<close>.
\<close>

definition s3_list_objects_v2 ::
  "'t s3_bucket \<Rightarrow> string option \<Rightarrow> string \<Rightarrow> char \<Rightarrow> error + 't list_objects_v2_output" where
  "s3_list_objects_v2 s3 bucket pre delimiter =
     (case bucket of
        None \<Rightarrow> Inl ConfigurationError
      | Some _ \<Rightarrow>
          (let page = take (page_size s3)
                 (remdups (map (roll_up pre delimiter)
                    (filter (\<lambda>obj. startswith (Key obj) pre) (objects s3))))
           in Inr \<lparr>CommonPrefixes = absent_if_empty (folders_of page),
                   Contents = absent_if_empty (objects_of page)\<rparr>))"

text \<open>
  Modelled from the spec: \<^verbatim>\<open>delete_object(Bucket, Key)\<close> removes the object at the key
  and does not fail when there is none.
\<close>

definition s3_delete_object ::
  "'t s3_bucket \<Rightarrow> string option \<Rightarrow> string \<Rightarrow> error + 't s3_bucket" where
  "s3_delete_object s3 bucket k =
     (case bucket of
        None \<Rightarrow> Inl ConfigurationError
      | Some _ \<Rightarrow> Inr (s3\<lparr>objects := filter (\<lambda>obj. Key obj \<noteq> k) (objects s3)\<rparr>))"

text \<open>
  Modelled from the spec: \<^verbatim>\<open>put_object(Bucket, Key)\<close> with no body stores a zero-byte
  object at the key, replacing the object that was there; \<open>now\<close> is the service's
  time of the write.
\<close>

definition s3_put_object ::
  "'t s3_bucket \<Rightarrow> 't \<Rightarrow> string option \<Rightarrow> string \<Rightarrow> error + 't s3_bucket" where
  "s3_put_object s3 now bucket k =
     (case bucket of
        None \<Rightarrow> Inl ConfigurationError
      | Some _ \<Rightarrow>
          Inr (s3\<lparr>objects := filter (\<lambda>obj. Key obj \<noteq> k) (objects s3)
                      @ [\<lparr>Key = k, Size = 0, LastModified = now\<rparr>]\<rparr>))"

text \<open>
  Modelled from the spec: a presigned URL is a signed URL that grants one action on one
  object key of one bucket for a limited time, and signing is a pure construction that
  neither reads nor writes the bucket. The URL is represented by what it carries: the
  client method it grants, the bucket and the key of its path, and its validity in
  seconds from issuance. Its signature and its text are the SDK's and are not modelled.
\<close>

record presigned_url =
  client_method :: string
  url_bucket :: string
  url_key :: string
  expires_in :: nat

definition s3_generate_presigned_url ::
  "string \<Rightarrow> string option \<Rightarrow> string \<Rightarrow> nat \<Rightarrow> error + presigned_url" where
  "s3_generate_presigned_url method bucket k expires =
     (case bucket of
        None \<Rightarrow> Inl ConfigurationError
      | Some b \<Rightarrow>
          Inr \<lparr>client_method = method, url_bucket = b, url_key = k, expires_in = expires\<rparr>)"

section \<open>The handlers\<close>

text \<open>
  The request body of \<^verbatim>\<open>generate_presigned_url\<close> (\<^verbatim>\<open>class FileRequest\<close>) and the
  JSON objects the handlers return. A folder entry of the listing has no \<^verbatim>\<open>size\<close>
  and no \<^verbatim>\<open>last_modified\<close> key; \<open>size_bytes\<close> is the entry's \<^verbatim>\<open>size\<close>.
\<close>

record FileRequest =
  filename :: string
  filetype :: string

record url_response =
  url :: presigned_url

record FileEntry =
  key :: string
  name :: string
  size_bytes :: "nat option"
  last_modified :: "string option"
  isFolder :: bool

record message_response =
  message :: string

text \<open>
  \<^verbatim>\<open>POST /api/generate_presigned_url\<close>: one call of the client's
  \<^verbatim>\<open>generate_presigned_url("put_object", Params={Bucket, Key}, ExpiresIn=3600)\<close>, whose
  result is returned under \<^verbatim>\<open>url\<close>. The request's \<open>filetype\<close> is not read.
\<close>

definition generate_presigned_url ::
  "environ \<Rightarrow> 't s3_bucket \<Rightarrow> FileRequest \<Rightarrow> (error + url_response) \<times> 't s3_bucket" where
  "generate_presigned_url env s3 request =
     (case s3_generate_presigned_url ''put_object'' (S3_BUCKET env) (filename request) 3600 of
        Inl e \<Rightarrow> (Inl e, s3)
      | Inr presigned_url \<Rightarrow> (Inr \<lparr>url = presigned_url\<rparr>, s3))"

text \<open>
  \<^verbatim>\<open>GET /api/list_files\<close>. The first loop, over
  \<^verbatim>\<open>response.get("CommonPrefixes", [])\<close>, appends a folder entry named
  \<^verbatim>\<open>folder["Prefix"].split("/")[-2]\<close>; the subscript raises when the split has fewer
  than two parts.
\<close>

fun folders_loop :: "FileEntry list \<Rightarrow> common_prefix list \<Rightarrow> error + FileEntry list" where
  "folders_loop files [] = Inr files"
| "folders_loop files (folder # rest) =
     (case subscript (py_split (Prefix folder) CHR ''/'') (- 2) of
        Inl e \<Rightarrow> Inl e
      | Inr n \<Rightarrow>
          folders_loop
            (files @ [\<lparr>key = Prefix folder, name = n, size_bytes = None,
                       last_modified = None, isFolder = True\<rparr>])
            rest)"

text \<open>
  The second loop, over \<^verbatim>\<open>response.get("Contents", [])\<close>, appends an entry for every
  object whose key is not the requested prefix; \<open>isoformat\<close> is
  \<^verbatim>\<open>datetime.isoformat\<close>, the rendering of the service's timestamp as text, a
  parameter of the model.
\<close>

fun objects_loop ::
  "('t \<Rightarrow> string) \<Rightarrow> string \<Rightarrow> FileEntry list \<Rightarrow> 't s3_object list \<Rightarrow> error + FileEntry list" where
  "objects_loop isoformat pre files [] = Inr files"
| "objects_loop isoformat pre files (obj # rest) =
     (if Key obj \<noteq> pre then
        (case subscript (py_split (Key obj) CHR ''/'') (- 1) of
           Inl e \<Rightarrow> Inl e
         | Inr n \<Rightarrow>
             objects_loop isoformat pre
               (files @ [\<lparr>key = Key obj, name = n, size_bytes = Some (Size obj),
                          last_modified = Some (isoformat (LastModified obj)),
                          isFolder = False\<rparr>])
               rest)
      else objects_loop isoformat pre files rest)"

record list_response =
  files :: "FileEntry list"

text \<open>
  The handler lists with the delimiter \<^verbatim>\<open>"/"\<close> and runs the two loops on the one
  response; it follows no continuation token. The web framework passes the empty prefix
  when the query has none.
\<close>

definition list_files ::
  "('t \<Rightarrow> string) \<Rightarrow> environ \<Rightarrow> 't s3_bucket \<Rightarrow> string \<Rightarrow> (error + list_response) \<times> 't s3_bucket" where
  "list_files isoformat env s3 pre =
     (case s3_list_objects_v2 s3 (S3_BUCKET env) pre CHR ''/'' of
        Inl e \<Rightarrow> (Inl e, s3)
      | Inr response \<Rightarrow>
          (case folders_loop [] (get_or_empty (CommonPrefixes response)) of
             Inl e \<Rightarrow> (Inl e, s3)
           | Inr files1 \<Rightarrow>
               (case objects_loop isoformat pre files1 (get_or_empty (Contents response)) of
                  Inl e \<Rightarrow> (Inl e, s3)
                | Inr files2 \<Rightarrow> (Inr \<lparr>files = files2\<rparr>, s3))))"

text \<open>
  \<^verbatim>\<open>GET /api/download_file\<close>: as the upload URL, for \<^verbatim>\<open>get_object\<close> on the key.
\<close>

definition download_file ::
  "environ \<Rightarrow> 't s3_bucket \<Rightarrow> string \<Rightarrow> (error + url_response) \<times> 't s3_bucket" where
  "download_file env s3 k =
     (case s3_generate_presigned_url ''get_object'' (S3_BUCKET env) k 3600 of
        Inl e \<Rightarrow> (Inl e, s3)
      | Inr presigned_url \<Rightarrow> (Inr \<lparr>url = presigned_url\<rparr>, s3))"

text \<open>
  \<^verbatim>\<open>DELETE /api/delete_file\<close>: one \<^verbatim>\<open>delete_object\<close>, then the message
  \<^verbatim>\<open>f"{key} deleted successfully"\<close>, whatever the service answered.
\<close>

definition delete_file ::
  "environ \<Rightarrow> 't s3_bucket \<Rightarrow> string \<Rightarrow> (error + message_response) \<times> 't s3_bucket" where
  "delete_file env s3 k =
     (case s3_delete_object s3 (S3_BUCKET env) k of
        Inl e \<Rightarrow> (Inl e, s3)
      | Inr s3' \<Rightarrow> (Inr \<lparr>message = k @ '' deleted successfully''\<rparr>, s3'))"

text \<open>
  \<^verbatim>\<open>POST /api/create_folder\<close>: the prefix gets a \<^verbatim>\<open>"/"\<close> appended unless it ends
  with one, then one \<^verbatim>\<open>put_object\<close> with no body at that key, and the message
  \<^verbatim>\<open>f"Folder '{prefix}' created successfully"\<close> (\<open>CHR 0x27\<close> is the single quote).
\<close>

definition create_folder ::
  "environ \<Rightarrow> 't \<Rightarrow> 't s3_bucket \<Rightarrow> string \<Rightarrow> (error + message_response) \<times> 't s3_bucket" where
  "create_folder env now s3 pre =
     (let pre' = (if \<not> endswith pre ''/'' then pre @ ''/'' else pre) in
      case s3_put_object s3 now (S3_BUCKET env) pre' of
        Inl e \<Rightarrow> (Inl e, s3)
      | Inr s3' \<Rightarrow>
          (Inr \<lparr>message = ''Folder '' @ [CHR 0x27] @ pre' @ [CHR 0x27]
                   @ '' created successfully''\<rparr>, s3'))"

section \<open>Notions of the specification\<close>

text \<open>
  The specification derives a folder's name by stripping the trailing delimiter of the
  common prefix and taking the last path segment, the text after the last delimiter.
\<close>

definition strip_trailing_delimiter :: "string \<Rightarrow> string" where
  "strip_trailing_delimiter s = (if endswith s ''/'' then butlast s else s)"

definition last_path_segment :: "string \<Rightarrow> string" where
  "last_path_segment s = rev (takeWhile (\<lambda>c. c \<noteq> CHR ''/'') (rev s))"

text \<open>The key of a folder's marker: the prefix normalized to end with the delimiter.\<close>

definition folder_key :: "string \<Rightarrow> string" where
  "folder_key p = (if p \<noteq> [] \<and> last p = CHR ''/'' then p else p @ [CHR ''/''])"

text \<open>
  The entries the specification's listing shows: a folder for a common prefix, and a
  file with its size and modification time for an object; the name is the last path
  segment.
\<close>

definition folder_entry :: "common_prefix \<Rightarrow> FileEntry" where
  "folder_entry f =
     \<lparr>key = Prefix f, name = last_path_segment (strip_trailing_delimiter (Prefix f)),
      size_bytes = None, last_modified = None, isFolder = True\<rparr>"

definition object_entry :: "('t \<Rightarrow> string) \<Rightarrow> 't s3_object \<Rightarrow> FileEntry" where
  "object_entry isoformat obj =
     \<lparr>key = Key obj, name = last_path_segment (Key obj), size_bytes = Some (Size obj),
      last_modified = Some (isoformat (LastModified obj)), isFolder = False\<rparr>"

text \<open>The keys stored in a bucket.\<close>

definition keys :: "'t s3_bucket \<Rightarrow> string set" where
  "keys s3 = Key ` set (objects s3)"

section \<open>Splitting and indexing\<close>

lemma py_split_nonempty: "py_split s sep \<noteq> []"
  by (induction s) auto

lemma py_split_snoc: "py_split (s @ [sep]) sep = py_split s sep @ [[]]"
  by (induction s) (auto simp: py_split_nonempty)

lemma py_split_single: "tl (py_split s sep) = [] \<longleftrightarrow> sep \<notin> set s"
  by (induction s) (auto simp: py_split_nonempty)

lemma py_split_no_sep: "sep \<notin> set s \<Longrightarrow> py_split s sep = [s]"
  by (induction s) (auto simp: py_split_nonempty)

text \<open>The last part of a split is the text after the last separator.\<close>

lemma last_py_split:
  "last (py_split s sep) = rev (takeWhile (\<lambda>c. c \<noteq> sep) (rev s))"
proof (induction s)
  case Nil
  show ?case by simp
next
  case (Cons c cs)
  show ?case
  proof (cases "c = sep")
    case True
    then show ?thesis
      using Cons by (simp add: py_split_nonempty takeWhile_append)
  next
    case False
    show ?thesis
    proof (cases "sep \<in> set cs")
      case True
      then have "tl (py_split cs sep) \<noteq> []"
        by (simp add: py_split_single)
      then have "last (py_split (c # cs) sep) = last (py_split cs sep)"
        using False by (simp add: last_tl)
      then show ?thesis
        using Cons True by (auto simp: takeWhile_append)
    next
      case no_sep: False
      then show ?thesis
        using False by (simp add: py_split_no_sep takeWhile_append)
    qed
  qed
qed

lemma subscript_last: "xs \<noteq> [] \<Longrightarrow> subscript xs (- 1) = Inr (last xs)"
  by (cases xs rule: rev_cases) (auto simp: subscript_def nth_append)

lemma subscript_second_last: "subscript (xs @ [y, z]) (- 2) = Inr y"
  by (auto simp: subscript_def nth_append)

lemma endswith_delimiter: "endswith s [d] \<longleftrightarrow> s \<noteq> [] \<and> last s = d"
  by (cases s rule: rev_cases) (auto simp: endswith_def)

text \<open>
  On a string that ends with the delimiter, \<^verbatim>\<open>split("/")[-2]\<close> does not raise and is the
  last path segment of the string without its trailing delimiter.
\<close>

lemma second_last_part:
  assumes "endswith p ''/''"
  shows "subscript (py_split p CHR ''/'') (- 2)
     = Inr (last_path_segment (strip_trailing_delimiter p))"
proof -
  from assms obtain t where p: "p = t @ ''/''"
    by (cases p rule: rev_cases) (auto simp: endswith_delimiter)
  have "py_split t CHR ''/'' = butlast (py_split t CHR ''/'') @ [last (py_split t CHR ''/'')]"
    by (simp add: py_split_nonempty)
  then have "py_split p CHR ''/''
      = butlast (py_split t CHR ''/'') @ [last (py_split t CHR ''/''), []]"
    by (simp add: p py_split_snoc)
  then have "subscript (py_split p CHR ''/'') (- 2) = Inr (last (py_split t CHR ''/''))"
    by (simp only: subscript_second_last)
  moreover have "strip_trailing_delimiter p = t"
    by (simp add: strip_trailing_delimiter_def p endswith_delimiter)
  ultimately show ?thesis
    by (simp add: last_py_split last_path_segment_def)
qed

section \<open>The two loops of the listing\<close>

lemma folders_loop_result:
  assumes "\<forall>f\<in>set cps. endswith (Prefix f) ''/''"
  shows "folders_loop acc cps = Inr (acc @ map folder_entry cps)"
  using assms
  by (induction cps arbitrary: acc) (simp_all add: second_last_part folder_entry_def)

lemma objects_loop_result:
  "objects_loop fmt pre acc objs
     = Inr (acc @ map (object_entry fmt) (filter (\<lambda>obj. Key obj \<noteq> pre) objs))"
  by (induction objs arbitrary: acc)
     (simp_all add: subscript_last py_split_nonempty last_py_split object_entry_def
        last_path_segment_def)

text \<open>
  The order of the entries does not depend on the service: on any two response
  sequences on which the loops return, the folder entries come first, in the order of
  the common prefixes, followed by the entries of the objects.
\<close>

lemma folders_loop_keys:
  "folders_loop acc cps = Inr fs \<Longrightarrow>
     \<exists>folders. fs = acc @ folders \<and> map key folders = map Prefix cps
       \<and> (\<forall>e\<in>set folders. isFolder e)"
proof (induction cps arbitrary: acc)
  case Nil
  then show ?case by simp
next
  case (Cons f cps)
  from Cons.prems obtain n where
    n: "subscript (py_split (Prefix f) CHR ''/'') (- 2) = Inr n"
    and rest: "folders_loop (acc @ [\<lparr>key = Prefix f, name = n, size_bytes = None,
        last_modified = None, isFolder = True\<rparr>]) cps = Inr fs"
    by (auto split: sum.splits)
  from Cons.IH [OF rest] show ?case
    by auto
qed

lemma loops_folders_first:
  assumes "folders_loop [] cps = Inr fs1"
    and "objects_loop fmt pre fs1 objs = Inr fs2"
  shows "\<exists>folders. fs2 = folders @ map (object_entry fmt) (filter (\<lambda>obj. Key obj \<noteq> pre) objs)
     \<and> map key folders = map Prefix cps \<and> (\<forall>e\<in>set folders. isFolder e)"
  using folders_loop_keys [OF assms(1)] assms(2) by (auto simp: objects_loop_result)

section \<open>The listing of the storage service\<close>

lemma folders_of_set: "p \<in> set (folders_of items) \<longleftrightarrow> Folder p \<in> set items"
  by (induction items rule: folders_of.induct) auto

lemma objects_of_set: "obj \<in> set (objects_of items) \<longleftrightarrow> Object obj \<in> set items"
  by (induction items rule: objects_of.induct) auto

lemma get_or_empty_absent: "get_or_empty (absent_if_empty xs) = xs"
  by (simp add: get_or_empty_def absent_if_empty_def)

lemma listing_total: "\<exists>r. s3_list_objects_v2 s3 (Some b) pre d = Inr r"
  by (simp add: s3_list_objects_v2_def Let_def)

text \<open>A listed common prefix is the requested prefix, a segment and the delimiter.\<close>

lemma listed_common_prefix:
  assumes "s3_list_objects_v2 s3 (Some b) pre d = Inr r"
    and "f \<in> set (get_or_empty (CommonPrefixes r))"
  shows "\<exists>seg. Prefix f = pre @ seg @ [d]"
proof -
  from assms have "Folder f \<in> set (take (page_size s3)
      (remdups (map (roll_up pre d) (filter (\<lambda>obj. startswith (Key obj) pre) (objects s3)))))"
    by (auto simp: s3_list_objects_v2_def Let_def get_or_empty_absent folders_of_set)
  then have "Folder f \<in> roll_up pre d ` set (objects s3)"
    by (auto dest!: in_set_takeD)
  then show ?thesis
    by (auto simp: roll_up_def Let_def split: if_splits)
qed

text \<open>
  With a configured bucket the handler never raises: it returns the folder entries of the
  common prefixes followed by the entries of the objects whose key is not the prefix.
\<close>

lemma list_files_result:
  assumes "S3_BUCKET env = Some b"
    and "s3_list_objects_v2 s3 (Some b) pre CHR ''/'' = Inr r"
  shows "list_files fmt env s3 pre
     = (Inr \<lparr>files = map folder_entry (get_or_empty (CommonPrefixes r))
          @ map (object_entry fmt)
              (filter (\<lambda>obj. Key obj \<noteq> pre) (get_or_empty (Contents r)))\<rparr>, s3)"
proof -
  have "\<forall>f\<in>set (get_or_empty (CommonPrefixes r)). endswith (Prefix f) ''/''"
    using listed_common_prefix [OF assms(2)] by (fastforce simp: endswith_delimiter)
  then show ?thesis
    using assms by (simp add: list_files_def folders_loop_result objects_loop_result)
qed

lemma S3_BUCKET_example: "S3_BUCKET [''S3_BUCKET'' \<mapsto> ''media''] = Some ''media''"
  by (simp add: S3_BUCKET_def)

section \<open>Presigned URLs\<close>

text \<open>
  Claim C1: with a configured bucket, for every filename \<open>generate_presigned_url\<close> returns
  a URL for \<open>put_object\<close> that carries the configured bucket and the exact filename as
  its object key, and a validity of exactly 3600 seconds.
\<close>

theorem generate_presigned_url_result:
  assumes "S3_BUCKET env = Some b"
  shows "generate_presigned_url env s3 request
     = (Inr \<lparr>url = \<lparr>client_method = ''put_object'', url_bucket = b,
                url_key = filename request, expires_in = 3600\<rparr>\<rparr>, s3)"
  using assms by (simp add: generate_presigned_url_def s3_generate_presigned_url_def)

text \<open>The theorem at the key \<^verbatim>\<open>docs/report.pdf\<close> of the bucket \<^verbatim>\<open>media\<close>.\<close>

theorem generate_presigned_url_result_witness:
  "S3_BUCKET [''S3_BUCKET'' \<mapsto> ''media''] = Some ''media'' \<and>
   generate_presigned_url [''S3_BUCKET'' \<mapsto> ''media'']
       \<lparr>objects = [] :: nat s3_object list, page_size = 1000\<rparr>
       \<lparr>filename = ''docs/report.pdf'', filetype = ''application/pdf''\<rparr>
     = (Inr \<lparr>url = \<lparr>client_method = ''put_object'', url_bucket = ''media'',
                url_key = ''docs/report.pdf'', expires_in = 3600\<rparr>\<rparr>,
        \<lparr>objects = [], page_size = 1000\<rparr>)"
  using generate_presigned_url_result [OF S3_BUCKET_example,
      where request = "\<lparr>filename = ''docs/report.pdf'', filetype = ''application/pdf''\<rparr>"
        and ?s3.0 = "\<lparr>objects = [] :: nat s3_object list, page_size = 1000\<rparr>"]
    S3_BUCKET_example
  by simp

text \<open>
  Claim C7: neither \<open>generate_presigned_url\<close> nor \<open>download_file\<close> changes the bucket:
  the bucket after the call is the bucket before it. The result of \<open>download_file\<close> is
  the same for every bucket state, and with a configured bucket it is a URL for
  \<open>get_object\<close> on the key, whether or not an object is stored there.
\<close>

theorem presigned_urls_leave_bucket:
  "snd (generate_presigned_url env s3 request) = s3
   \<and> snd (download_file env s3 k) = s3
   \<and> fst (download_file env other k) = fst (download_file env s3 k)
   \<and> (S3_BUCKET env = Some b \<longrightarrow>
        fst (download_file env s3 k)
          = Inr \<lparr>url = \<lparr>client_method = ''get_object'', url_bucket = b, url_key = k,
                      expires_in = 3600\<rparr>\<rparr>)"
  by (simp add: generate_presigned_url_def download_file_def s3_generate_presigned_url_def
        split: option.split)

text \<open>The theorem at a key of an empty bucket: the URL is issued all the same.\<close>

theorem presigned_urls_leave_bucket_witness:
  "S3_BUCKET [''S3_BUCKET'' \<mapsto> ''media''] = Some ''media'' \<and>
   download_file [''S3_BUCKET'' \<mapsto> ''media'']
       \<lparr>objects = [] :: nat s3_object list, page_size = 1000\<rparr> ''missing.txt''
     = (Inr \<lparr>url = \<lparr>client_method = ''get_object'', url_bucket = ''media'',
                url_key = ''missing.txt'', expires_in = 3600\<rparr>\<rparr>,
        \<lparr>objects = [], page_size = 1000\<rparr>)"
  using presigned_urls_leave_bucket [where env = "[''S3_BUCKET'' \<mapsto> ''media'']"
      and b = "''media''" and k = "''missing.txt''"
      and ?s3.0 = "\<lparr>objects = [] :: nat s3_object list, page_size = 1000\<rparr>"
      and other = "\<lparr>objects = [\<lparr>Key = ''missing.txt'', Size = 3, LastModified = 1\<rparr>],
                    page_size = 1000\<rparr>"
      and request = "\<lparr>filename = ''missing.txt'', filetype = ''text/plain''\<rparr>"]
  by (simp add: S3_BUCKET_def download_file_def s3_generate_presigned_url_def)

text \<open>
  Claim C8: the \<open>filetype\<close> field of the upload request does not influence the response:
  two requests with the same filename and any two filetypes get the same result and
  leave the same bucket.
\<close>

theorem generate_presigned_url_ignores_filetype:
  "generate_presigned_url env s3 \<lparr>filename = f, filetype = t1\<rparr>
     = generate_presigned_url env s3 \<lparr>filename = f, filetype = t2\<rparr>"
  by (simp add: generate_presigned_url_def)

section \<open>Listing\<close>

text \<open>
  Claim C2: for every prefix and every bucket state, \<open>list_files\<close> returns a list in which
  no entry, folder or object, has the requested prefix itself as its key.
\<close>

theorem list_files_excludes_prefix:
  assumes "S3_BUCKET env = Some b"
  shows "\<exists>fs. list_files fmt env s3 pre = (Inr \<lparr>files = fs\<rparr>, s3)
     \<and> (\<forall>e\<in>set fs. key e \<noteq> pre)"
proof -
  obtain r where r: "s3_list_objects_v2 s3 (Some b) pre CHR ''/'' = Inr r"
    using listing_total by blast
  have "\<forall>f\<in>set (get_or_empty (CommonPrefixes r)). Prefix f \<noteq> pre"
  proof
    fix f
    assume "f \<in> set (get_or_empty (CommonPrefixes r))"
    from listed_common_prefix [OF r this] show "Prefix f \<noteq> pre"
      by auto
  qed
  then have "\<forall>e\<in>set (map folder_entry (get_or_empty (CommonPrefixes r))
      @ map (object_entry fmt)
          (filter (\<lambda>obj. Key obj \<noteq> pre) (get_or_empty (Contents r)))). key e \<noteq> pre"
    by (auto simp: folder_entry_def object_entry_def)
  then show ?thesis
    using list_files_result [OF assms r] by blast
qed

text \<open>
  The theorem at the prefix \<^verbatim>\<open>docs/\<close> of a bucket that holds the folder marker
  \<^verbatim>\<open>docs/\<close>: the marker is not listed.
\<close>

theorem list_files_excludes_prefix_witness:
  "S3_BUCKET [''S3_BUCKET'' \<mapsto> ''media''] = Some ''media'' \<and>
   list_files (\<lambda>t::nat. ''2024-01-01T00:00:00+00:00'') [''S3_BUCKET'' \<mapsto> ''media'']
       \<lparr>objects = [\<lparr>Key = ''docs/'', Size = 0, LastModified = 1\<rparr>,
                    \<lparr>Key = ''docs/report.pdf'', Size = 10, LastModified = 2\<rparr>,
                    \<lparr>Key = ''docs/sub/x'', Size = 4, LastModified = 3\<rparr>,
                    \<lparr>Key = ''top.txt'', Size = 5, LastModified = 4\<rparr>], page_size = 1000\<rparr>
       ''docs/''
     = (Inr \<lparr>files =
          [\<lparr>key = ''docs/sub/'', name = ''sub'', size_bytes = None, last_modified = None,
             isFolder = True\<rparr>,
           \<lparr>key = ''docs/report.pdf'', name = ''report.pdf'', size_bytes = Some 10,
             last_modified = Some ''2024-01-01T00:00:00+00:00'', isFolder = False\<rparr>]\<rparr>,
        \<lparr>objects = [\<lparr>Key = ''docs/'', Size = 0, LastModified = 1\<rparr>,
                    \<lparr>Key = ''docs/report.pdf'', Size = 10, LastModified = 2\<rparr>,
                    \<lparr>Key = ''docs/sub/x'', Size = 4, LastModified = 3\<rparr>,
                    \<lparr>Key = ''top.txt'', Size = 5, LastModified = 4\<rparr>], page_size = 1000\<rparr>)"
  using list_files_excludes_prefix [OF S3_BUCKET_example, where pre = "''docs/''"
      and fmt = "\<lambda>t::nat. ''2024-01-01T00:00:00+00:00''"
      and ?s3.0 = "\<lparr>objects = [\<lparr>Key = ''docs/'', Size = 0, LastModified = 1\<rparr>,
                    \<lparr>Key = ''docs/report.pdf'', Size = 10, LastModified = 2\<rparr>,
                    \<lparr>Key = ''docs/sub/x'', Size = 4, LastModified = 3\<rparr>,
                    \<lparr>Key = ''top.txt'', Size = 5, LastModified = 4\<rparr>], page_size = 1000\<rparr>"]
  by (simp add: S3_BUCKET_def list_files_def s3_list_objects_v2_def roll_up_def startswith_def
        absent_if_empty_def get_or_empty_def subscript_def Let_def)

text \<open>
  Claim C4: for every prefix and every bucket state, the entries \<open>list_files\<close> returns are
  the folder entries followed by the object entries, the folders in the order of the
  common prefixes of the service's response and the objects in the order of its contents.
\<close>

theorem list_files_folders_first:
  assumes "S3_BUCKET env = Some b"
  shows "\<exists>r folders objs.
       s3_list_objects_v2 s3 (S3_BUCKET env) pre CHR ''/'' = Inr r
     \<and> list_files fmt env s3 pre = (Inr \<lparr>files = folders @ objs\<rparr>, s3)
     \<and> (\<forall>e\<in>set folders. isFolder e) \<and> (\<forall>e\<in>set objs. \<not> isFolder e)
     \<and> map key folders = map Prefix (get_or_empty (CommonPrefixes r))
     \<and> map key objs = filter (\<lambda>k. k \<noteq> pre) (map Key (get_or_empty (Contents r)))"
proof -
  obtain r where r: "s3_list_objects_v2 s3 (Some b) pre CHR ''/'' = Inr r"
    using listing_total by blast
  define folders where "folders = map folder_entry (get_or_empty (CommonPrefixes r))"
  define objs where "objs = map (object_entry fmt)
      (filter (\<lambda>obj. Key obj \<noteq> pre) (get_or_empty (Contents r)))"
  have listed: "list_files fmt env s3 pre = (Inr \<lparr>files = folders @ objs\<rparr>, s3)"
    unfolding folders_def objs_def by (rule list_files_result [OF assms r])
  have kinds: "(\<forall>e\<in>set folders. isFolder e) \<and> (\<forall>e\<in>set objs. \<not> isFolder e)"
    by (simp add: folders_def objs_def folder_entry_def object_entry_def)
  have folder_keys: "map key folders = map Prefix (get_or_empty (CommonPrefixes r))"
    by (simp add: folders_def folder_entry_def)
  have object_keys:
    "map key objs = filter (\<lambda>k. k \<noteq> pre) (map Key (get_or_empty (Contents r)))"
    by (simp add: objs_def object_entry_def filter_map comp_def)
  show ?thesis
    apply (rule exI [where x = r])
    apply (rule exI [where x = folders])
    apply (rule exI [where x = objs])
    using r assms listed kinds folder_keys object_keys by simp
qed

text \<open>
  The theorem at the empty prefix of a bucket that enumerates an object before the keys
  of its folders: both folders are listed first.
\<close>

theorem list_files_folders_first_witness:
  "S3_BUCKET [''S3_BUCKET'' \<mapsto> ''media''] = Some ''media'' \<and>
   list_files (\<lambda>t::nat. ''2024-01-01T00:00:00+00:00'') [''S3_BUCKET'' \<mapsto> ''media'']
       \<lparr>objects = [\<lparr>Key = ''a.txt'', Size = 3, LastModified = 1\<rparr>,
                    \<lparr>Key = ''docs/x'', Size = 4, LastModified = 2\<rparr>,
                    \<lparr>Key = ''z.txt'', Size = 5, LastModified = 3\<rparr>,
                    \<lparr>Key = ''img/y'', Size = 6, LastModified = 4\<rparr>], page_size = 1000\<rparr>
       []
     = (Inr \<lparr>files =
          [\<lparr>key = ''docs/'', name = ''docs'', size_bytes = None, last_modified = None,
             isFolder = True\<rparr>,
           \<lparr>key = ''img/'', name = ''img'', size_bytes = None, last_modified = None,
             isFolder = True\<rparr>,
           \<lparr>key = ''a.txt'', name = ''a.txt'', size_bytes = Some 3,
             last_modified = Some ''2024-01-01T00:00:00+00:00'', isFolder = False\<rparr>,
           \<lparr>key = ''z.txt'', name = ''z.txt'', size_bytes = Some 5,
             last_modified = Some ''2024-01-01T00:00:00+00:00'', isFolder = False\<rparr>]\<rparr>,
        \<lparr>objects = [\<lparr>Key = ''a.txt'', Size = 3, LastModified = 1\<rparr>,
                    \<lparr>Key = ''docs/x'', Size = 4, LastModified = 2\<rparr>,
                    \<lparr>Key = ''z.txt'', Size = 5, LastModified = 3\<rparr>,
                    \<lparr>Key = ''img/y'', Size = 6, LastModified = 4\<rparr>], page_size = 1000\<rparr>)"
  using list_files_folders_first [OF S3_BUCKET_example, where pre = "[]"
      and fmt = "\<lambda>t::nat. ''2024-01-01T00:00:00+00:00''"
      and ?s3.0 = "\<lparr>objects = [\<lparr>Key = ''a.txt'', Size = 3, LastModified = 1\<rparr>,
                    \<lparr>Key = ''docs/x'', Size = 4, LastModified = 2\<rparr>,
                    \<lparr>Key = ''z.txt'', Size = 5, LastModified = 3\<rparr>,
                    \<lparr>Key = ''img/y'', Size = 6, LastModified = 4\<rparr>], page_size = 1000\<rparr>"]
  by (simp add: S3_BUCKET_def list_files_def s3_list_objects_v2_def roll_up_def startswith_def
        absent_if_empty_def get_or_empty_def subscript_def Let_def)

text \<open>
  Claim C6: for every common prefix of the service's response, the folder entry at the
  same position of the list has that common prefix as its key, and its name is the last
  path segment of the common prefix without its trailing delimiter.
\<close>

theorem list_files_folder_name:
  assumes "S3_BUCKET env = Some b"
  shows "\<exists>r fs.
       s3_list_objects_v2 s3 (S3_BUCKET env) pre CHR ''/'' = Inr r
     \<and> list_files fmt env s3 pre = (Inr \<lparr>files = fs\<rparr>, s3)
     \<and> length (get_or_empty (CommonPrefixes r)) \<le> length fs
     \<and> (\<forall>i < length (get_or_empty (CommonPrefixes r)).
          key (fs ! i) = Prefix (get_or_empty (CommonPrefixes r) ! i)
        \<and> isFolder (fs ! i)
        \<and> name (fs ! i)
            = last_path_segment
                (strip_trailing_delimiter (Prefix (get_or_empty (CommonPrefixes r) ! i))))"
proof -
  obtain r where r: "s3_list_objects_v2 s3 (Some b) pre CHR ''/'' = Inr r"
    using listing_total by blast
  define cps where "cps = get_or_empty (CommonPrefixes r)"
  define fs where "fs = map folder_entry cps
      @ map (object_entry fmt) (filter (\<lambda>obj. Key obj \<noteq> pre) (get_or_empty (Contents r)))"
  have listed: "list_files fmt env s3 pre = (Inr \<lparr>files = fs\<rparr>, s3)"
    unfolding fs_def cps_def by (rule list_files_result [OF assms r])
  have len: "length cps \<le> length fs"
    by (simp add: fs_def)
  have entries: "\<forall>i < length cps. key (fs ! i) = Prefix (cps ! i) \<and> isFolder (fs ! i)
      \<and> name (fs ! i) = last_path_segment (strip_trailing_delimiter (Prefix (cps ! i)))"
    by (simp add: fs_def nth_append folder_entry_def)
  show ?thesis
    apply (rule exI [where x = r])
    apply (rule exI [where x = fs])
    using r assms listed len entries unfolding cps_def by simp
qed

text \<open>
  The theorem at the prefix \<^verbatim>\<open>a/\<close>: the common prefix \<^verbatim>\<open>a/b/\<close> is listed with the
  name \<^verbatim>\<open>b\<close>.
\<close>

theorem list_files_folder_name_witness:
  "S3_BUCKET [''S3_BUCKET'' \<mapsto> ''media''] = Some ''media'' \<and>
   last_path_segment (strip_trailing_delimiter ''a/b/'') = ''b'' \<and>
   list_files (\<lambda>t::nat. ''2024-01-01T00:00:00+00:00'') [''S3_BUCKET'' \<mapsto> ''media'']
       \<lparr>objects = [\<lparr>Key = ''a/b/c.txt'', Size = 3, LastModified = 1\<rparr>], page_size = 1000\<rparr>
       ''a/''
     = (Inr \<lparr>files =
          [\<lparr>key = ''a/b/'', name = ''b'', size_bytes = None, last_modified = None,
             isFolder = True\<rparr>]\<rparr>,
        \<lparr>objects = [\<lparr>Key = ''a/b/c.txt'', Size = 3, LastModified = 1\<rparr>], page_size = 1000\<rparr>)"
  using list_files_folder_name [OF S3_BUCKET_example, where pre = "''a/''"
      and fmt = "\<lambda>t::nat. ''2024-01-01T00:00:00+00:00''"
      and ?s3.0 = "\<lparr>objects = [\<lparr>Key = ''a/b/c.txt'', Size = 3, LastModified = 1\<rparr>],
                    page_size = 1000\<rparr>"]
  by (simp add: S3_BUCKET_def list_files_def s3_list_objects_v2_def roll_up_def startswith_def
        absent_if_empty_def get_or_empty_def subscript_def Let_def last_path_segment_def
        strip_trailing_delimiter_def endswith_def)

text \<open>
  Claim C9: for every prefix that no stored key starts with, \<open>list_files\<close> returns a
  successful response whose list of files is empty.
\<close>

theorem list_files_no_match:
  assumes "S3_BUCKET env = Some b"
    and "\<forall>obj\<in>set (objects s3). \<not> startswith (Key obj) pre"
  shows "list_files fmt env s3 pre = (Inr \<lparr>files = []\<rparr>, s3)"
proof -
  have "filter (\<lambda>obj. startswith (Key obj) pre) (objects s3) = []"
    using assms(2) by (simp add: filter_empty_conv)
  then have "s3_list_objects_v2 s3 (Some b) pre CHR ''/''
      = Inr \<lparr>CommonPrefixes = None, Contents = None\<rparr>"
    by (simp add: s3_list_objects_v2_def absent_if_empty_def)
  from list_files_result [OF assms(1) this] show ?thesis
    by (simp add: get_or_empty_def)
qed

text \<open>The theorem at the prefix \<^verbatim>\<open>nope/\<close> of a bucket with one object elsewhere.\<close>

theorem list_files_no_match_witness:
  "S3_BUCKET [''S3_BUCKET'' \<mapsto> ''media''] = Some ''media'' \<and>
   \<not> startswith ''docs/report.pdf'' ''nope/'' \<and>
   list_files (\<lambda>t::nat. ''2024-01-01T00:00:00+00:00'') [''S3_BUCKET'' \<mapsto> ''media'']
       \<lparr>objects = [\<lparr>Key = ''docs/report.pdf'', Size = 3, LastModified = 1\<rparr>],
         page_size = 1000\<rparr>
       ''nope/''
     = (Inr \<lparr>files = []\<rparr>,
        \<lparr>objects = [\<lparr>Key = ''docs/report.pdf'', Size = 3, LastModified = 1\<rparr>],
          page_size = 1000\<rparr>)"
proof -
  have no_match: "\<forall>obj\<in>set (objects
      \<lparr>objects = [\<lparr>Key = ''docs/report.pdf'', Size = 3, LastModified = 1::nat\<rparr>],
        page_size = 1000\<rparr>). \<not> startswith (Key obj) ''nope/''"
    by (simp add: startswith_def)
  show ?thesis
    using list_files_no_match [OF S3_BUCKET_example no_match] S3_BUCKET_example
    by (simp add: startswith_def)
qed

section \<open>Deleting\<close>

text \<open>
  Claim C5: with a configured bucket, for every key \<open>delete_file\<close> returns the same success
  message whether or not an object is stored at the key, and leaves a bucket without an
  object at that key: the other objects stay, and a bucket that had no object at the key
  is unchanged.
\<close>

theorem delete_file_same_response:
  assumes "S3_BUCKET env = Some b"
  shows "\<exists>s3'. delete_file env s3 k
       = (Inr \<lparr>message = k @ '' deleted successfully''\<rparr>, s3')
     \<and> k \<notin> keys s3'
     \<and> (\<forall>obj. Key obj \<noteq> k \<longrightarrow> (obj \<in> set (objects s3') \<longleftrightarrow> obj \<in> set (objects s3)))
     \<and> (k \<notin> keys s3 \<longrightarrow> s3' = s3)
     \<and> fst (delete_file env other k) = fst (delete_file env s3 k)"
proof -
  define s3' where "s3' = s3\<lparr>objects := filter (\<lambda>obj. Key obj \<noteq> k) (objects s3)\<rparr>"
  have deleted: "delete_file env s3 k = (Inr \<lparr>message = k @ '' deleted successfully''\<rparr>, s3')"
    using assms by (simp add: delete_file_def s3_delete_object_def s3'_def)
  have gone: "k \<notin> keys s3'"
    by (auto simp: keys_def s3'_def)
  have others: "\<forall>obj. Key obj \<noteq> k \<longrightarrow> (obj \<in> set (objects s3') \<longleftrightarrow> obj \<in> set (objects s3))"
    by (simp add: s3'_def)
  have "filter (\<lambda>obj. Key obj \<noteq> k) (objects s3) = objects s3" if "k \<notin> keys s3"
    using that by (auto simp: keys_def filter_id_conv)
  then have noop: "k \<notin> keys s3 \<longrightarrow> s3' = s3"
    by (simp add: s3'_def)
  have same: "fst (delete_file env other k) = fst (delete_file env s3 k)"
    using assms by (simp add: delete_file_def s3_delete_object_def)
  show ?thesis
    apply (rule exI [where x = s3'])
    using deleted gone others noop same by simp
qed

text \<open>
  The theorem at the key \<^verbatim>\<open>missing.txt\<close>, of a bucket without it and of a bucket with
  it: the message is the same.
\<close>

theorem delete_file_same_response_witness:
  "S3_BUCKET [''S3_BUCKET'' \<mapsto> ''media''] = Some ''media'' \<and>
   delete_file [''S3_BUCKET'' \<mapsto> ''media'']
       \<lparr>objects = [\<lparr>Key = ''a.txt'', Size = 3, LastModified = 1::nat\<rparr>], page_size = 1000\<rparr>
       ''missing.txt''
     = (Inr \<lparr>message = ''missing.txt deleted successfully''\<rparr>,
        \<lparr>objects = [\<lparr>Key = ''a.txt'', Size = 3, LastModified = 1\<rparr>], page_size = 1000\<rparr>) \<and>
   delete_file [''S3_BUCKET'' \<mapsto> ''media'']
       \<lparr>objects = [\<lparr>Key = ''missing.txt'', Size = 3, LastModified = 1::nat\<rparr>], page_size = 1000\<rparr>
       ''missing.txt''
     = (Inr \<lparr>message = ''missing.txt deleted successfully''\<rparr>,
        \<lparr>objects = [], page_size = 1000\<rparr>)"
  using delete_file_same_response [OF S3_BUCKET_example, where k = "''missing.txt''"
      and ?s3.0 = "\<lparr>objects = [\<lparr>Key = ''a.txt'', Size = 3, LastModified = 1::nat\<rparr>], page_size = 1000\<rparr>"
      and other = "\<lparr>objects = [\<lparr>Key = ''missing.txt'', Size = 3, LastModified = 1::nat\<rparr>], page_size = 1000\<rparr>"]
  by (simp add: S3_BUCKET_def delete_file_def s3_delete_object_def)

section \<open>Creating folders\<close>

lemma folder_key_code: "(if \<not> endswith p ''/'' then p @ ''/'' else p) = folder_key p"
  by (simp add: folder_key_def endswith_delimiter)

lemma folder_key_idem: "folder_key (folder_key p) = folder_key p"
  by (simp add: folder_key_def)

lemma create_folder_result:
  assumes "S3_BUCKET env = Some b"
  shows "create_folder env now s3 p
     = (Inr \<lparr>message = ''Folder '' @ [CHR 0x27] @ folder_key p @ [CHR 0x27]
                @ '' created successfully''\<rparr>,
        s3\<lparr>objects := filter (\<lambda>obj. Key obj \<noteq> folder_key p) (objects s3)
              @ [\<lparr>Key = folder_key p, Size = 0, LastModified = now\<rparr>]\<rparr>)"
  using assms
  by (simp add: create_folder_def s3_put_object_def folder_key_code Let_def del: append.simps)

text \<open>
  Claim C3: \<open>create_folder\<close> normalizes its prefix to end with the delimiter before it
  writes. With a configured bucket, the call with a prefix and the call with the
  normalized prefix are the same call; it leaves exactly one object at the normalized
  key, a zero-byte marker, adds no other key and keeps every other object; and a further
  call with any prefix of the same normalized key leaves the bucket as it is (\<open>later\<close>
  is another time of writing: the keys are the same then, too).
\<close>

theorem create_folder_normalizes:
  assumes "S3_BUCKET env = Some b"
  shows "\<exists>s3'. create_folder env now s3 p
       = (Inr \<lparr>message = ''Folder '' @ [CHR 0x27] @ folder_key p @ [CHR 0x27]
                  @ '' created successfully''\<rparr>, s3')
     \<and> create_folder env now s3 (folder_key p) = create_folder env now s3 p
     \<and> filter (\<lambda>obj. Key obj = folder_key p) (objects s3')
         = [\<lparr>Key = folder_key p, Size = 0, LastModified = now\<rparr>]
     \<and> keys s3' = insert (folder_key p) (keys s3)
     \<and> (\<forall>obj. Key obj \<noteq> folder_key p
           \<longrightarrow> (obj \<in> set (objects s3') \<longleftrightarrow> obj \<in> set (objects s3)))
     \<and> (folder_key q = folder_key p
           \<longrightarrow> snd (create_folder env now s3' q) = s3'
             \<and> keys (snd (create_folder env later s3' q)) = keys s3')"
proof -
  define k where "k = folder_key p"
  define marker where "marker = \<lparr>Key = k, Size = 0, LastModified = now\<rparr>"
  define s3' where
    "s3' = s3\<lparr>objects := filter (\<lambda>obj. Key obj \<noteq> k) (objects s3) @ [marker]\<rparr>"
  have created: "create_folder env now s3 p
      = (Inr \<lparr>message = ''Folder '' @ [CHR 0x27] @ k @ [CHR 0x27]
                 @ '' created successfully''\<rparr>, s3')"
    unfolding s3'_def marker_def k_def by (rule create_folder_result [OF assms])
  have same: "create_folder env now s3 k = create_folder env now s3 p"
    by (simp add: create_folder_result [OF assms] k_def folder_key_idem)
  have single: "filter (\<lambda>obj. Key obj = k) (objects s3') = [marker]"
    by (simp add: s3'_def marker_def)
  have stored: "keys s3' = insert k (keys s3)"
    by (auto simp: keys_def s3'_def marker_def)
  have others: "\<forall>obj. Key obj \<noteq> k \<longrightarrow> (obj \<in> set (objects s3') \<longleftrightarrow> obj \<in> set (objects s3))"
    by (auto simp: s3'_def marker_def)
  have again: "snd (create_folder env now s3' q) = s3'" if "folder_key q = k"
    using that by (simp add: create_folder_result [OF assms] s3'_def marker_def)
  have again_keys: "keys (snd (create_folder env later s3' q)) = keys s3'" if "folder_key q = k"
    using that by (auto simp: create_folder_result [OF assms] s3'_def marker_def keys_def)
  show ?thesis
    apply (rule exI [where x = s3'])
    using created same single stored others again again_keys
    unfolding k_def marker_def by simp
qed

text \<open>
  The theorem at \<^verbatim>\<open>foo\<close>: \<^verbatim>\<open>create_folder("foo")\<close> and \<^verbatim>\<open>create_folder("foo/")\<close>
  both store the marker \<^verbatim>\<open>foo/\<close>, and a second call changes nothing.
\<close>

theorem create_folder_normalizes_witness:
  "S3_BUCKET [''S3_BUCKET'' \<mapsto> ''media''] = Some ''media'' \<and>
   folder_key ''foo'' = ''foo/'' \<and> folder_key ''foo/'' = ''foo/'' \<and>
   create_folder [''S3_BUCKET'' \<mapsto> ''media''] (7::nat)
       \<lparr>objects = [\<lparr>Key = ''a.txt'', Size = 3, LastModified = 1\<rparr>], page_size = 1000\<rparr> ''foo''
     = (Inr \<lparr>message = ''Folder '' @ [CHR 0x27] @ ''foo/'' @ [CHR 0x27]
                @ '' created successfully''\<rparr>,
        \<lparr>objects = [\<lparr>Key = ''a.txt'', Size = 3, LastModified = 1\<rparr>,
                     \<lparr>Key = ''foo/'', Size = 0, LastModified = 7\<rparr>], page_size = 1000\<rparr>) \<and>
   create_folder [''S3_BUCKET'' \<mapsto> ''media''] (7::nat)
       \<lparr>objects = [\<lparr>Key = ''a.txt'', Size = 3, LastModified = 1\<rparr>], page_size = 1000\<rparr> ''foo/''
     = (Inr \<lparr>message = ''Folder '' @ [CHR 0x27] @ ''foo/'' @ [CHR 0x27]
                @ '' created successfully''\<rparr>,
        \<lparr>objects = [\<lparr>Key = ''a.txt'', Size = 3, LastModified = 1\<rparr>,
                     \<lparr>Key = ''foo/'', Size = 0, LastModified = 7\<rparr>], page_size = 1000\<rparr>) \<and>
   snd (create_folder [''S3_BUCKET'' \<mapsto> ''media''] (7::nat)
       \<lparr>objects = [\<lparr>Key = ''a.txt'', Size = 3, LastModified = 1\<rparr>,
                    \<lparr>Key = ''foo/'', Size = 0, LastModified = 7\<rparr>], page_size = 1000\<rparr> ''foo'')
     = \<lparr>objects = [\<lparr>Key = ''a.txt'', Size = 3, LastModified = 1\<rparr>,
                    \<lparr>Key = ''foo/'', Size = 0, LastModified = 7\<rparr>], page_size = 1000\<rparr>"
  using create_folder_normalizes [OF S3_BUCKET_example, where p = "''foo''" and q = "''foo''"
      and now = "7::nat" and later = "7::nat"
      and ?s3.0 = "\<lparr>objects = [\<lparr>Key = ''a.txt'', Size = 3, LastModified = 1\<rparr>], page_size = 1000\<rparr>"]
  by (simp add: S3_BUCKET_def folder_key_def create_folder_def s3_put_object_def endswith_def)

text \<open>
  Claim C10: with a configured bucket, \<open>create_folder\<close> with the empty prefix stores a
  marker at the key \<^verbatim>\<open>/\<close> and reports success, and no prefix at all is rejected.
\<close>

theorem create_folder_empty_prefix:
  assumes "S3_BUCKET env = Some b"
  shows "create_folder env now s3 []
       = (Inr \<lparr>message = ''Folder '' @ [CHR 0x27] @ ''/'' @ [CHR 0x27]
                  @ '' created successfully''\<rparr>,
          s3\<lparr>objects := filter (\<lambda>obj. Key obj \<noteq> ''/'') (objects s3)
                @ [\<lparr>Key = ''/'', Size = 0, LastModified = now\<rparr>]\<rparr>)
     \<and> (\<forall>p. \<exists>m s3'. create_folder env now s3 p = (Inr m, s3'))"
  using assms
  by (simp add: create_folder_def s3_put_object_def endswith_def Let_def)

text \<open>The theorem at an empty bucket.\<close>

theorem create_folder_empty_prefix_witness:
  "S3_BUCKET [''S3_BUCKET'' \<mapsto> ''media''] = Some ''media'' \<and>
   create_folder [''S3_BUCKET'' \<mapsto> ''media''] (7::nat) \<lparr>objects = [], page_size = 1000\<rparr> []
     = (Inr \<lparr>message = ''Folder '' @ [CHR 0x27] @ ''/'' @ [CHR 0x27]
                @ '' created successfully''\<rparr>,
        \<lparr>objects = [\<lparr>Key = ''/'', Size = 0, LastModified = 7\<rparr>], page_size = 1000\<rparr>)"
  using create_folder_empty_prefix [OF S3_BUCKET_example, where now = "7::nat"
      and ?s3.0 = "\<lparr>objects = [], page_size = 1000\<rparr>"]
    S3_BUCKET_example
  by simp

end
